theory Spec2Isabelle
  imports Complex_Main "HOL-Library.Monad_Syntax"
begin

section \<open>The segment tree of \<open>haiku_baselines/common/segment_tree.py\<close>\<close>

text \<open>
  The module is a Python program over JAX arrays.
  \<^item> A \<open>jnp\<close> array is an immutable value, modelled as a list.
    \<open>x.at[i].set(v)\<close> does not change \<open>x\<close>, it returns a new array (\<open>at_set\<close> below),
    so a statement that only evaluates it has no effect.
  \<^item> \<open>unique\<close> is decorated with \<open>jax.jit\<close>, and \<open>__init__\<close> replaces
    \<open>_reduce_helper\<close>, \<open>_setitem_helper\<close> and \<open>_find_prefixsum_idx_helper\<close> by
    \<open>jax.jit\<close> of themselves, with no static argument. Inside such a function every
    argument, array or integer, is a tracer: the length of an array is still a plain
    number, but Python's \<open>bool\<close> of a value computed from the arguments raises
    \<open>TracerBoolConversionError\<close> (\<open>tracer_bool\<close>), and handing such a value to NumPy
    raises \<open>TracerArrayConversionError\<close> (\<open>tracer_to_numpy\<close>). The bodies below are the
    source's, with these two conversions where the source branches or calls NumPy.
  \<^item> Python's integers are \<open>int\<close>, with \<open>//\<close> as \<open>div\<close> (both floor). Where a Python
    integer is converted to a JAX value (an index, an argument of a jitted function) it
    must fit \<open>int32\<close>, else \<open>OverflowError\<close>. Capacities are taken to be below \<open>2^31\<close>.
  \<^item> The \<open>float32\<close> values are written as \<open>real\<close> numbers, those of the minimum tree
    as \<open>real\<close> extended by \<open>float('inf')\<close>; a search target is the value its array
    holds. Nothing proved below depends on rounding: no operation of a constructed tree
    gets as far as computing with the values.
  \<^item> A raised exception is a value of type \<open>error\<close>; a loop or recursion that does not
    come back is the value \<open>None\<close> of a \<open>partial_function\<close>.
\<close>

subsection \<open>Values, errors and arrays\<close>

datatype error = AssertionError string | IndexError | ValueError | OverflowError
  | TracerBoolConversionError | TracerArrayConversionError

text \<open>An argument that is either a Python scalar or an array.\<close>

datatype 'a pyarg = Scalar 'a | Array "'a list"

definition in_int32 :: "int \<Rightarrow> bool" where
  "in_int32 i \<longleftrightarrow> - (2 ^ 31) \<le> i \<and> i < 2 ^ 31"

text \<open>The two conversions of a traced value; the argument is what is converted.\<close>

definition tracer_bool :: "bool \<Rightarrow> error + bool" where
  "tracer_bool b = Inl TracerBoolConversionError"

definition tracer_to_numpy :: "'a \<Rightarrow> error + 'a" where
  "tracer_to_numpy x = Inl TracerArrayConversionError"

text \<open>
  Reading \<open>x[i]\<close> of a \<open>jnp\<close> array: a negative index counts from the end, and an
  index that is still out of bounds is clamped. Writing with \<open>x.at[i].set(v)\<close>: an
  out-of-bounds index is dropped.
\<close>

definition norm_index :: "nat \<Rightarrow> int \<Rightarrow> int" where
  "norm_index n i = (if i < 0 then i + int n else i)"

definition jget :: "'a list \<Rightarrow> int \<Rightarrow> 'a" where
  "jget xs i = xs ! nat (max 0 (min (int (length xs) - 1) (norm_index (length xs) i)))"

definition at_set1 :: "'a list \<Rightarrow> int \<Rightarrow> 'a \<Rightarrow> 'a list" where
  "at_set1 xs i v =
     (let j = norm_index (length xs) i
      in if 0 \<le> j \<and> j < int (length xs) then xs[nat j := v] else xs)"

definition at_set_list :: "'a list \<Rightarrow> int list \<Rightarrow> 'a list \<Rightarrow> 'a list" where
  "at_set_list xs idxs vs = fold (\<lambda>(i, v) ys. at_set1 ys i v) (zip idxs vs) xs"

text \<open>
  \<open>x.at[idxs].set(val)\<close> with the shapes of \<open>__setitem__\<close>: a Python integer index must
  fit \<open>int32\<close>; a scalar value is broadcast over an index array, an array value needs
  the length of the index array (or length 1), and an array value does not fit a scalar
  index.
\<close>

definition at_set :: "'a list \<Rightarrow> int pyarg \<Rightarrow> 'a pyarg \<Rightarrow> error + 'a list" where
  "at_set xs idxs val =
     (case idxs of
        Scalar i \<Rightarrow>
          if \<not> in_int32 i then Inl OverflowError
          else (case val of
                  Scalar v \<Rightarrow> Inr (at_set1 xs i v)
                | Array vs \<Rightarrow> Inl ValueError)
      | Array is \<Rightarrow>
          (case val of
             Scalar v \<Rightarrow> Inr (at_set_list xs is (replicate (length is) v))
           | Array vs \<Rightarrow>
               if length vs = length is then Inr (at_set_list xs is vs)
               else if length vs = 1
                 then Inr (at_set_list xs is (replicate (length is) (hd vs)))
                 else Inl ValueError))"

text \<open>Boolean-mask indexing \<open>x[mask]\<close>.\<close>

definition mask_select :: "'a list \<Rightarrow> bool list \<Rightarrow> 'a list" where
  "mask_select xs flags = map fst (filter snd (zip xs flags))"

subsection \<open>\<open>unique\<close>\<close>

text \<open>
  \<open>unique\<close> is jitted, so \<open>sorted_array\<close> is a tracer. Its length is known: an array
  of length 1 is returned as it is. Otherwise \<open>right != left\<close> is a traced mask, and
  \<open>np.append(right != left, True)\<close> hands it to NumPy.
\<close>

definition unique :: "int list \<Rightarrow> error + int list" where
  "unique sorted_array =
     (if length sorted_array = 1 then Inr sorted_array
      else
        let left = butlast sorted_array;
            right = tl sorted_array
        in case tracer_to_numpy (map2 (\<lambda>r l. r \<noteq> l) right left) of
             Inl e \<Rightarrow> Inl e
           | Inr m \<Rightarrow> (let uniques = m @ [True] in Inr (mask_select sorted_array uniques)))"

subsection \<open>\<open>SegmentTree\<close>\<close>

record 'a segment_tree =
  capacity :: int
  value' :: "'a list"
  operation :: "'a \<Rightarrow> 'a \<Rightarrow> 'a"
  neutral_element :: 'a

text \<open>
  The fields are \<open>_capacity\<close>, \<open>_value\<close> (here \<open>value'\<close>), \<open>_operation\<close> and
  \<open>neutral_element\<close>. \<open>__init__\<close> asserts
  \<open>capacity > 0 and capacity & (capacity - 1) == 0\<close>.
\<close>

unbundle bit_operations_syntax

definition SegmentTree ::
  "int \<Rightarrow> ('a \<Rightarrow> 'a \<Rightarrow> 'a) \<Rightarrow> 'a \<Rightarrow> error + 'a segment_tree" where
  "SegmentTree cap oper neutral =
     (if \<not> (cap > 0 \<and> cap AND (cap - 1) = 0)
      then Inl (AssertionError ''capacity must be positive and a power of 2.'')
      else Inr \<lparr>capacity = cap, value' = replicate (nat (2 * cap)) neutral,
                operation = oper, neutral_element = neutral\<rparr>)"

text \<open>
  The body of \<open>_reduce_helper\<close> under tracing. \<open>start\<close>, \<open>end\<close> and the node bounds are
  tracers, so each \<open>if\<close> converts a traced comparison. A recursive call goes through
  the same attribute, with traced arguments.
\<close>

partial_function (option) reduce_helper_traced ::
  "('a \<Rightarrow> 'a \<Rightarrow> 'a) \<Rightarrow> 'a list \<Rightarrow> int \<Rightarrow> int \<Rightarrow> int \<Rightarrow> int \<Rightarrow> int \<Rightarrow> (error + 'a) option" where
  "reduce_helper_traced oper v start end node node_start node_end =
     (case tracer_bool (start = node_start \<and> end = node_end) of
        Inl e \<Rightarrow> Some (Inl e)
      | Inr exact \<Rightarrow>
          if exact then Some (Inr (jget v node))
          else
            let mid = (node_start + node_end) div 2
            in case tracer_bool (end \<le> mid) of
                 Inl e \<Rightarrow> Some (Inl e)
               | Inr in_left \<Rightarrow>
                   if in_left
                   then reduce_helper_traced oper v start end (2 * node) node_start mid
                   else
                     (case tracer_bool (mid + 1 \<le> start) of
                        Inl e \<Rightarrow> Some (Inl e)
                      | Inr in_right \<Rightarrow>
                          if in_right
                          then reduce_helper_traced oper v start end (2 * node + 1) (mid + 1) node_end
                          else do {
                            ra \<leftarrow> reduce_helper_traced oper v start mid (2 * node) node_start mid;
                            case ra of
                              Inl e \<Rightarrow> Some (Inl e)
                            | Inr a \<Rightarrow> do {
                                rb \<leftarrow> reduce_helper_traced oper v (mid + 1) end (2 * node + 1)
                                       (mid + 1) node_end;
                                case rb of
                                  Inl e \<Rightarrow> Some (Inl e)
                                | Inr b \<Rightarrow> Some (Inr (oper a b))
                              }
                          }))"

text \<open>
  The attribute \<open>self._reduce_helper\<close> after \<open>__init__\<close>: \<open>jax.jit\<close> of the method. The
  five Python integers of a call become \<open>int32\<close> arguments.
\<close>

definition reduce_helper ::
  "('a \<Rightarrow> 'a \<Rightarrow> 'a) \<Rightarrow> 'a list \<Rightarrow> int \<Rightarrow> int \<Rightarrow> int \<Rightarrow> int \<Rightarrow> int \<Rightarrow> (error + 'a) option" where
  "reduce_helper oper v start end node node_start node_end =
     (if \<not> list_all in_int32 [start, end, node, node_start, node_end]
      then Some (Inl OverflowError)
      else reduce_helper_traced oper v start end node node_start node_end)"

text \<open>
  \<open>reduce\<close> is not jitted. It calls whatever is bound to \<open>self._reduce_helper\<close>:
  \<open>reduce_with\<close> takes that callable as \<open>helper\<close>, and \<open>reduce\<close> is the method of a
  constructed tree.
\<close>

definition reduce_with ::
  "(('a \<Rightarrow> 'a \<Rightarrow> 'a) \<Rightarrow> 'a list \<Rightarrow> int \<Rightarrow> int \<Rightarrow> int \<Rightarrow> int \<Rightarrow> int \<Rightarrow> 'r)
   \<Rightarrow> 'a segment_tree \<Rightarrow> int \<Rightarrow> int option \<Rightarrow> 'r" where
  "reduce_with helper self start end =
     (let e0 = (case end of None \<Rightarrow> capacity self | Some e \<Rightarrow> e);
          e1 = (if e0 < 0 then e0 + capacity self else e0);
          e2 = e1 - 1
      in helper (operation self) (value' self) start e2 1 0 (capacity self - 1))"

definition reduce :: "'a segment_tree \<Rightarrow> int \<Rightarrow> int option \<Rightarrow> (error + 'a) option" where
  "reduce self start end = reduce_with reduce_helper self start end"

text \<open>
  The loop of \<open>_setitem_helper\<close> under tracing. In the test
  \<open>len(idxs) > 1 or idxs[0] > 0\<close> the length is a plain number and \<open>idxs[0] > 0\<close> is
  traced. Each round evaluates \<open>_value.at[idxs].set(...)\<close> and drops the result, then
  moves to the parents; the function returns the \<open>_value\<close> it was given.
\<close>

partial_function (option) setitem_loop ::
  "('a \<Rightarrow> 'a \<Rightarrow> 'a) \<Rightarrow> 'a list \<Rightarrow> int list \<Rightarrow> (error + 'a list) option" where
  "setitem_loop oper v idxs =
     (case (if length idxs > 1 then Inr True
            else if idxs = [] then Inl IndexError
            else tracer_bool (idxs ! 0 > 0)) of
        Inl e \<Rightarrow> Some (Inl e)
      | Inr again \<Rightarrow>
          if again then
            (let dropped = at_set_list v idxs
                   (map2 oper (map (\<lambda>i. jget v (2 * i)) idxs)
                      (map (\<lambda>i. jget v (2 * i + 1)) idxs))
             in case unique (map (\<lambda>i. i div 2) idxs) of
                  Inl e \<Rightarrow> Some (Inl e)
                | Inr idxs' \<Rightarrow> setitem_loop oper v idxs')
          else Some (Inr v))"

text \<open>The attribute \<open>self._setitem_helper\<close>: \<open>jax.jit\<close> of the method; its arguments are arrays.\<close>

definition setitem_helper ::
  "('a \<Rightarrow> 'a \<Rightarrow> 'a) \<Rightarrow> 'a list \<Rightarrow> int list \<Rightarrow> (error + 'a list) option" where
  "setitem_helper oper v idxs =
     (case unique (map (\<lambda>i. i div 2) idxs) of
        Inl e \<Rightarrow> Some (Inl e)
      | Inr idxs' \<Rightarrow> setitem_loop oper v idxs')"

text \<open>
  \<open>__setitem__\<close> is not jitted. It evaluates \<open>self._value.at[idxs].set(val)\<close> and drops
  the result, then calls what is bound to \<open>self._setitem_helper\<close> (\<open>helper\<close> in
  \<open>setitem_with\<close>) on the array \<open>self._value\<close>. The object changes only in the last
  statement, \<open>self._value = self._setitem_helper(self._value, idxs)\<close>; the result pairs
  the outcome of the call with the object after it.
\<close>

definition setitem_with ::
  "(('a \<Rightarrow> 'a \<Rightarrow> 'a) \<Rightarrow> 'a list \<Rightarrow> int list \<Rightarrow> (error + 'a list) option)
   \<Rightarrow> 'a segment_tree \<Rightarrow> int pyarg \<Rightarrow> 'a pyarg \<Rightarrow> ((error + unit) \<times> 'a segment_tree) option" where
  "setitem_with helper self idx val =
     (let idxs = (case idx of Scalar i \<Rightarrow> Scalar (i + capacity self)
                            | Array is \<Rightarrow> Array (map (\<lambda>i. i + capacity self) is))
      in case at_set (value' self) idxs val of
           Inl e \<Rightarrow> Some (Inl e, self)
         | Inr dropped \<Rightarrow>
             (let idxs' = (case idxs of Scalar i \<Rightarrow> [i] | Array is \<Rightarrow> is)
              in case helper (operation self) (value' self) idxs' of
                   None \<Rightarrow> None
                 | Some (Inl e) \<Rightarrow> Some (Inl e, self)
                 | Some (Inr v) \<Rightarrow> Some (Inr (), self\<lparr>value' := v\<rparr>)))"

definition setitem ::
  "'a segment_tree \<Rightarrow> int pyarg \<Rightarrow> 'a pyarg \<Rightarrow> ((error + unit) \<times> 'a segment_tree) option" where
  "setitem self idx val = setitem_with setitem_helper self idx val"

text \<open>
  \<open>__getitem__\<close> is not jitted. \<open>jnp.max(idx)\<close> converts a Python integer to \<open>int32\<close>
  and raises \<open>OverflowError\<close> when it does not fit; then come the two assertions. An
  index in \<open>[0, capacity)\<close> passes all three, the capacity being below \<open>2^31\<close>. The
  elements of an index array are machine integers already.
\<close>

definition getitem :: "'a segment_tree \<Rightarrow> int pyarg \<Rightarrow> error + 'a pyarg" where
  "getitem self idx =
     (case idx of
        Scalar i \<Rightarrow>
          if \<not> in_int32 i \<and> \<not> (0 \<le> i \<and> i < capacity self) then Inl OverflowError
          else if \<not> i < capacity self then Inl (AssertionError [])
          else if \<not> 0 \<le> i then Inl (AssertionError [])
          else Inr (Scalar (jget (value' self) (capacity self + i)))
      | Array is \<Rightarrow>
          if is = [] then Inl ValueError
          else if \<not> Max (set is) < capacity self then Inl (AssertionError [])
          else if \<not> 0 \<le> Min (set is) then Inl (AssertionError [])
          else Inr (Array (map (\<lambda>i. jget (value' self) (capacity self + i)) is)))"

text \<open>
  A caller's program: item assignments one after the other, stopping at the first
  exception.
\<close>

fun run_setitems ::
  "'a segment_tree \<Rightarrow> (int pyarg \<times> 'a pyarg) list \<Rightarrow> ((error + unit) \<times> 'a segment_tree) option" where
  "run_setitems self [] = Some (Inr (), self)"
| "run_setitems self ((idx, val) # calls) =
     (case setitem self idx val of
        None \<Rightarrow> None
      | Some (Inl e, self') \<Rightarrow> Some (Inl e, self')
      | Some (Inr u, self') \<Rightarrow> run_setitems self' calls)"

subsection \<open>\<open>SumSegmentTree\<close>\<close>

definition SumSegmentTree :: "int \<Rightarrow> error + real segment_tree" where
  "SumSegmentTree cap = SegmentTree cap (+) 0"

definition sum_tree :: "real segment_tree \<Rightarrow> int \<Rightarrow> int option \<Rightarrow> (error + real) option" where
  "sum_tree self start end = reduce self start end"

text \<open>The masked update \<open>x.at[mask].set(vs)\<close>, which like every \<open>at\<close> update returns a new array.\<close>

fun at_set_mask :: "'a list \<Rightarrow> bool list \<Rightarrow> 'a list \<Rightarrow> 'a list" where
  "at_set_mask (x # xs) (True # flags) (v # vs) = v # at_set_mask xs flags vs"
| "at_set_mask (x # xs) (m # flags) vs = x # at_set_mask xs flags vs"
| "at_set_mask xs flags vs = xs"

text \<open>
  The loop of \<open>_find_prefixsum_idx_helper\<close> under tracing: \<open>cont\<close> is built by
  \<open>jnp.ones\<close> inside the jitted function and \<open>jnp.any(cont)\<close> is traced. The first
  statement of the body, \<open>idx.at[cont].set(2 * idx[cont])\<close>, is evaluated and dropped.
\<close>

partial_function (option) find_prefixsum_loop ::
  "real list \<Rightarrow> int \<Rightarrow> int list \<Rightarrow> bool list \<Rightarrow> real list \<Rightarrow> (error + int list) option" where
  "find_prefixsum_loop v cap idx cont prefixsum =
     (case tracer_bool (list_ex (\<lambda>c. c) cont) of
        Inl e \<Rightarrow> Some (Inl e)
      | Inr again \<Rightarrow>
          if again then
            (let dropped = at_set_mask idx cont (map (\<lambda>i. 2 * i) (mask_select idx cont));
                 prefixsum_new =
                   map2 (\<lambda>i p. if jget v i \<le> p then p - jget v i else p) idx prefixsum;
                 idx' = map (\<lambda>(i, p, c). if jget v i > p \<or> \<not> c then i else i + 1)
                            (zip idx (zip prefixsum cont));
                 cont' = map (\<lambda>i. i < cap) idx'
             in find_prefixsum_loop v cap idx' cont' prefixsum_new)
          else Some (Inr (map (\<lambda>i. i - cap) idx)))"

text \<open>
  The attribute \<open>self._find_prefixsum_idx_helper\<close>: \<open>jax.jit\<close> of the method; its
  arguments are arrays.
\<close>

definition find_prefixsum_idx_helper ::
  "real segment_tree \<Rightarrow> real list \<Rightarrow> real list \<Rightarrow> (error + int list) option" where
  "find_prefixsum_idx_helper self v prefixsum =
     find_prefixsum_loop v (capacity self)
       (replicate (length prefixsum) 1) (replicate (length prefixsum) True) prefixsum"

text \<open>
  The argument of \<open>find_prefixsum_idx\<close>: a Python \<open>float\<close>, a NumPy \<open>float64\<close> array
  (its elements are instances of \<open>float\<close>) or a \<open>jnp\<close> array (its elements are
  zero-dimensional arrays, not instances of \<open>float\<close>). A Python \<open>float\<close> is wrapped
  by \<open>jnp.array([prefixsum])\<close>. \<open>jnp.min\<close> of an empty array raises \<open>ValueError\<close>.
  \<open>find_prefixsum_idx\<close> is not jitted; \<open>self.sum()\<close> in its second assertion goes
  through \<open>reduce\<close>.
\<close>

datatype prefixsum_arg = PyFloat real | NpFloat64 "real list" | JnpArray "real list"

fun elems :: "prefixsum_arg \<Rightarrow> real list" where
  "elems (PyFloat p) = [p]"
| "elems (NpFloat64 ps) = ps"
| "elems (JnpArray ps) = ps"

fun elements_are_float :: "prefixsum_arg \<Rightarrow> bool" where
  "elements_are_float (NpFloat64 ps) = True"
| "elements_are_float a = False"

definition find_prefixsum_idx ::
  "real segment_tree \<Rightarrow> prefixsum_arg \<Rightarrow> (error + int list) option" where
  "find_prefixsum_idx self prefixsum0 =
     (let prefixsum = (case prefixsum0 of PyFloat p \<Rightarrow> JnpArray [p] | a \<Rightarrow> a);
          ps = elems prefixsum
      in if ps = [] then Some (Inl ValueError)
         else if \<not> 0 \<le> Min (set ps) then Some (Inl (AssertionError []))
         else case sum_tree self 0 None of
                None \<Rightarrow> None
              | Some (Inl e) \<Rightarrow> Some (Inl e)
              | Some (Inr s) \<Rightarrow>
                  if \<not> Max (set ps) \<le> s + 1 / 100000 then Some (Inl (AssertionError []))
                  else if \<not> elements_are_float prefixsum then Some (Inl (AssertionError []))
                  else find_prefixsum_idx_helper self (value' self) ps)"

subsection \<open>\<open>MinSegmentTree\<close>\<close>

text \<open>The values of the minimum tree: a real number or \<open>float('inf')\<close>.\<close>

datatype xfloat = Fin real | PosInf

instantiation xfloat :: linorder
begin

fun less_eq_xfloat :: "xfloat \<Rightarrow> xfloat \<Rightarrow> bool" where
  "less_eq_xfloat (Fin a) (Fin b) = (a \<le> b)"
| "less_eq_xfloat x PosInf = True"
| "less_eq_xfloat PosInf (Fin b) = False"

definition less_xfloat :: "xfloat \<Rightarrow> xfloat \<Rightarrow> bool" where
  "less_xfloat x y = (x \<le> y \<and> \<not> y \<le> x)"

instance
proof
  fix x y z :: xfloat
  show "(x < y) = (x \<le> y \<and> \<not> y \<le> x)" by (simp add: less_xfloat_def)
  show "x \<le> x" by (cases x) simp_all
  show "x \<le> y \<Longrightarrow> y \<le> z \<Longrightarrow> x \<le> z" by (cases x; cases y; cases z) simp_all
  show "x \<le> y \<Longrightarrow> y \<le> x \<Longrightarrow> x = y" by (cases x; cases y) simp_all
  show "x \<le> y \<or> y \<le> x" by (cases x; cases y) auto
qed

end


definition min_tree :: "xfloat segment_tree \<Rightarrow> int \<Rightarrow> int option \<Rightarrow> (error + xfloat) option" where
  "min_tree self start end = reduce self start end"

subsection \<open>The properties stated about the tree\<close>

text \<open>
  Tree consistency: every internal node holds the combination of its two children.
\<close>

definition tree_consistent :: "'a segment_tree \<Rightarrow> bool" where
  "tree_consistent self \<longleftrightarrow>
     list_all (\<lambda>k. value' self ! k = operation self (value' self ! (2 * k)) (value' self ! (2 * k + 1)))
       [1..<nat (capacity self)]"

text \<open>The tree that \<open>SumSegmentTree(8)\<close> builds.\<close>

definition fresh8 :: "real segment_tree" where
  "fresh8 = \<lparr>capacity = 8, value' = replicate 16 0, operation = (+), neutral_element = 0\<rparr>"

section \<open>Arrays\<close>


section \<open>The capacity test\<close>






section \<open>The fresh tree\<close>

lemma consistent_after_init:
  assumes "SegmentTree cap oper e = Inr t" and "oper e e = e"
  shows "tree_consistent t"
proof -
  from assms(1) have t: "t = \<lparr>capacity = cap, value' = replicate (nat (2 * cap)) e,
      operation = oper, neutral_element = e\<rparr>"
    by (simp add: SegmentTree_def split: if_splits)
  show ?thesis
    unfolding tree_consistent_def list_all_iff
  proof
    fix k assume "k \<in> set [1..<nat (capacity t)]"
    then have "k < nat (2 * cap)" "2 * k < nat (2 * cap)" "2 * k + 1 < nat (2 * cap)"
      by (auto simp: t)
    then show "value' t ! k = operation t (value' t ! (2 * k)) (value' t ! (2 * k + 1))"
      by (simp add: t assms(2))
  qed
qed

lemma SumSegmentTree_8: "SumSegmentTree 8 = Inr fresh8"
  by (simp add: SumSegmentTree_def SegmentTree_def fresh8_def)

lemma consistent_fresh8: "tree_consistent fresh8"
  using SumSegmentTree_8 unfolding SumSegmentTree_def
  by (rule consistent_after_init) simp

section \<open>The jitted helpers\<close>

lemma reduce_helper_traced_raises:
  "reduce_helper_traced oper v s e n ns ne = Some (Inl TracerBoolConversionError)"
  by (subst reduce_helper_traced.simps) (simp add: tracer_bool_def)

lemma reduce_helper_raises:
  "reduce_helper oper v s e n ns ne
     = Some (Inl (if list_all in_int32 [s, e, n, ns, ne]
                  then TracerBoolConversionError else OverflowError))"
  by (simp add: reduce_helper_def reduce_helper_traced_raises)

lemma reduce_raises: "\<exists>err. reduce self start end = Some (Inl err)"
  by (simp add: reduce_def reduce_with_def reduce_helper_raises Let_def)

lemma reduce_in_range_raises:
  assumes "0 \<le> start" "start < e" "e \<le> capacity self" "capacity self \<le> 2 ^ 31"
  shows "reduce self start (Some e) = Some (Inl TracerBoolConversionError)"
  using assms
  by (simp add: reduce_def reduce_with_def reduce_helper_raises Let_def in_int32_def)

lemma sum_tree_total_raises:
  assumes "0 < capacity self" "capacity self \<le> 2 ^ 31"
  shows "sum_tree self 0 None = Some (Inl TracerBoolConversionError)"
  using assms
  by (simp add: sum_tree_def reduce_def reduce_with_def reduce_helper_raises Let_def in_int32_def)

lemma unique_single: "length xs = 1 \<Longrightarrow> unique xs = Inr xs"
  by (simp add: unique_def)

lemma unique_raises: "length xs \<noteq> 1 \<Longrightarrow> unique xs = Inl TracerArrayConversionError"
  by (simp add: unique_def tracer_to_numpy_def)

lemma setitem_loop_single:
  "length idxs = 1 \<Longrightarrow> setitem_loop oper v idxs = Some (Inl TracerBoolConversionError)"
  by (subst setitem_loop.simps) (auto simp add: tracer_bool_def)

lemma setitem_helper_outcome:
  "setitem_helper oper v idxs
     = Some (Inl (if length idxs = 1 then TracerBoolConversionError
                  else TracerArrayConversionError))"
  by (simp add: setitem_helper_def unique_single unique_raises setitem_loop_single)

lemma setitem_scalar:
  "setitem self (Scalar i) (Scalar v)
     = Some (Inl (if in_int32 (i + capacity self) then TracerBoolConversionError
                  else OverflowError), self)"
  by (simp add: setitem_def setitem_with_def at_set_def setitem_helper_outcome)


lemma setitem_keeps_tree: "\<exists>err. setitem self idx val = Some (Inl err, self)"
proof (cases "at_set (value' self)
    (case idx of Scalar i \<Rightarrow> Scalar (i + capacity self)
               | Array is \<Rightarrow> Array (map (\<lambda>i. i + capacity self) is)) val")
  case (Inl e)
  then show ?thesis by (simp add: setitem_def setitem_with_def)
next
  case (Inr xs)
  then show ?thesis by (simp add: setitem_def setitem_with_def setitem_helper_outcome)
qed


lemma find_prefixsum_loop_raises:
  "find_prefixsum_loop v cap idx cont ps = Some (Inl TracerBoolConversionError)"
  by (subst find_prefixsum_loop.simps) (simp add: tracer_bool_def)

lemma find_prefixsum_idx_raises: "\<exists>err. find_prefixsum_idx self arg = Some (Inl err)"
proof -
  obtain err where "sum_tree self 0 None = Some (Inl err)"
    using reduce_raises [of self 0 None] by (auto simp: sum_tree_def)
  then show ?thesis by (simp add: find_prefixsum_idx_def Let_def)
qed

lemma find_prefixsum_idx_nonneg:
  assumes "0 < capacity self" "capacity self \<le> 2 ^ 31"
    and "elems arg \<noteq> []" and "list_all (\<lambda>p. 0 \<le> p) (elems arg)"
  shows "find_prefixsum_idx self arg = Some (Inl TracerBoolConversionError)"
proof -
  let ?ps = "elems (case arg of PyFloat p \<Rightarrow> JnpArray [p] | a \<Rightarrow> a)"
  have ps: "?ps = elems arg" by (cases arg) simp_all
  have "0 \<le> Min (set (elems arg))"
    using assms(3,4) by (simp add: list_all_iff)
  then show ?thesis
    using assms(3) sum_tree_total_raises [OF assms(1,2)]
    by (simp add: find_prefixsum_idx_def Let_def ps)
qed

section \<open>Updates\<close>

text \<open>
  C1. Claimed: after \<open>set(index, v)\<close> the leaf reads \<open>v\<close>, and on the fresh sum tree of
  capacity 8, \<open>set(3, 5.0)\<close> makes \<open>sum(0, 8)\<close> return \<open>5.0\<close>. On the tree that
  \<open>SumSegmentTree(8)\<close> builds, \<open>set(3, 5.0)\<close> raises \<open>TracerBoolConversionError\<close> in the
  jitted helper and leaves the tree as it was, \<open>get(3)\<close> still reads \<open>0\<close>, and
  \<open>sum(0, 8)\<close> raises the same error in the jitted \<open>_reduce_helper\<close>. Whatever callable
  is bound to \<open>self._setitem_helper\<close>, the outcome of \<open>set(3, v)\<close> does not depend on
  \<open>v\<close>: the array with the leaf written is dropped before the helper is called.
\<close>

theorem set_raises_and_does_not_write:
  "SumSegmentTree 8 = Inr fresh8 \<and>
   setitem fresh8 (Scalar 3) (Scalar 5) = Some (Inl TracerBoolConversionError, fresh8) \<and>
   getitem fresh8 (Scalar 3) = Inr (Scalar 0) \<and>
   sum_tree fresh8 0 (Some 8) = Some (Inl TracerBoolConversionError) \<and>
   (\<forall>helper v w. setitem_with helper fresh8 (Scalar 3) (Scalar v)
                  = setitem_with helper fresh8 (Scalar 3) (Scalar w))"
proof -
  have "capacity fresh8 = 8" by (simp add: fresh8_def)
  then have "setitem fresh8 (Scalar 3) (Scalar 5) = Some (Inl TracerBoolConversionError, fresh8)"
    by (simp add: setitem_scalar in_int32_def)
  moreover have "getitem fresh8 (Scalar 3) = Inr (Scalar 0)"
    by (simp add: getitem_def fresh8_def jget_def norm_index_def)
  moreover have "sum_tree fresh8 0 (Some 8) = Some (Inl TracerBoolConversionError)"
    unfolding sum_tree_def by (rule reduce_in_range_raises) (simp_all add: fresh8_def)
  moreover have "setitem_with helper fresh8 (Scalar 3) (Scalar v)
      = setitem_with helper fresh8 (Scalar 3) (Scalar w)" for helper and v w :: real
    by (simp add: setitem_with_def at_set_def)
  ultimately show ?thesis by (simp add: SumSegmentTree_8)
qed





text \<open>
  C7. Claimed: for an index outside \<open>[0, capacity)\<close> both \<open>get\<close> and \<open>set\<close> fail with the
  range error, and nothing is changed. \<open>__getitem__\<close> raises: the assertion's error, or
  \<open>OverflowError\<close> when the index does not fit \<open>int32\<close>. \<open>__setitem__\<close> has no range
  check: for such an index it raises what it raises for every index, in range or not
  (\<open>TracerBoolConversionError\<close> from the jitted helper, \<open>OverflowError\<close> when the leaf
  number does not fit \<open>int32\<close>), and leaves the tree as it was; and with any helper
  that returns an array, \<open>set\<close> of an out-of-range index returns normally.
\<close>

theorem out_of_range_index:
  "\<not> (0 \<le> i \<and> i < capacity self)
   \<longrightarrow> getitem self (Scalar i)
         = Inl (if in_int32 i then AssertionError [] else OverflowError) \<and>
       (\<forall>j. setitem self (Scalar j) (Scalar v)
              = Some (Inl (if in_int32 (j + capacity self) then TracerBoolConversionError
                           else OverflowError), self)) \<and>
       (\<forall>helper w. in_int32 (i + capacity self) \<and>
            helper (operation self) (value' self) [i + capacity self] = Some (Inr w)
          \<longrightarrow> setitem_with helper self (Scalar i) (Scalar v)
                = Some (Inr (), self\<lparr>value' := w\<rparr>))"
  by (auto simp add: getitem_def setitem_scalar setitem_with_def at_set_def)

theorem out_of_range_index_witness:
  "getitem fresh8 (Scalar 8) = Inl (AssertionError []) \<and>
   getitem fresh8 (Scalar (- 1)) = Inl (AssertionError []) \<and>
   getitem fresh8 (Scalar (2 ^ 31)) = Inl OverflowError \<and>
   setitem fresh8 (Scalar 8) (Scalar 1) = Some (Inl TracerBoolConversionError, fresh8) \<and>
   setitem fresh8 (Scalar (- 1)) (Scalar 1) = Some (Inl TracerBoolConversionError, fresh8) \<and>
   setitem fresh8 (Scalar 3) (Scalar 1) = Some (Inl TracerBoolConversionError, fresh8) \<and>
   setitem_with (\<lambda>oper v idxs. Some (Inr v)) fresh8 (Scalar 8) (Scalar 1)
     = Some (Inr (), fresh8)"
proof -
  have cap: "capacity fresh8 = 8" by (simp add: fresh8_def)
  have same: "fresh8\<lparr>value' := value' fresh8\<rparr> = fresh8" by simp
  show ?thesis
    using out_of_range_index [of 8 fresh8 1] out_of_range_index [of "- 1" fresh8 1]
      out_of_range_index [of "2 ^ 31" fresh8 1]
    by (simp add: cap in_int32_def same)
qed

section \<open>Range reduction\<close>

text \<open>
  C3. Claimed: on a consistent tree \<open>reduce(start, end)\<close> returns the operation folded
  over the leaves in \<open>[start, end)\<close>. \<open>reduce\<close> calls the jitted \<open>_reduce_helper\<close>, whose
  first \<open>if\<close> converts a traced comparison: no call of \<open>reduce\<close> returns a value, and
  for every range with \<open>0 \<le> start < end \<le> capacity\<close> the calls \<open>reduce\<close>, \<open>sum\<close> and
  \<open>min\<close> raise \<open>TracerBoolConversionError\<close>.
\<close>

theorem reduce_raises_tracer_error:
  "(\<exists>err. reduce self start end = Some (Inl err))
   \<and> (0 \<le> start \<and> start < e \<and> e \<le> capacity self \<and> capacity self \<le> 2 ^ 31
      \<longrightarrow> reduce self start (Some e) = Some (Inl TracerBoolConversionError))
   \<and> (0 \<le> start \<and> start < e \<and> e \<le> capacity st \<and> capacity st \<le> 2 ^ 31
      \<longrightarrow> sum_tree st start (Some e) = Some (Inl TracerBoolConversionError))
   \<and> (0 \<le> start \<and> start < e \<and> e \<le> capacity mt \<and> capacity mt \<le> 2 ^ 31
      \<longrightarrow> min_tree mt start (Some e) = Some (Inl TracerBoolConversionError))"
  by (simp add: reduce_raises reduce_in_range_raises sum_tree_def min_tree_def)

theorem reduce_raises_tracer_error_witness:
  "reduce fresh8 1 (Some 4) = Some (Inl TracerBoolConversionError) \<and>
   sum_tree fresh8 0 (Some 8) = Some (Inl TracerBoolConversionError) \<and>
   min_tree \<lparr>capacity = 4, value' = replicate 8 PosInf, operation = min,
             neutral_element = PosInf\<rparr> 0 (Some 3)
     = Some (Inl TracerBoolConversionError)"
proof -
  let ?mt = "\<lparr>capacity = 4, value' = replicate 8 PosInf, operation = min,
      neutral_element = PosInf\<rparr>"
  have "capacity fresh8 = 8" by (simp add: fresh8_def)
  then show ?thesis
    using reduce_raises_tracer_error [of fresh8 1 "Some 4" 4 fresh8 ?mt]
      reduce_raises_tracer_error [of fresh8 0 "Some 8" 8 fresh8 ?mt]
      reduce_raises_tracer_error [of fresh8 0 "Some 3" 3 fresh8 ?mt]
    by simp
qed

text \<open>
  C10. For a tree of capacity \<open>c\<close> and an end argument with \<open>-c \<le> end < 0\<close>,
  \<open>reduce(start, end)\<close> behaves as \<open>reduce(start, end + c)\<close>: whatever callable is bound
  to \<open>self._reduce_helper\<close>, it is called with the inclusive end \<open>end + c - 1\<close> on the
  root range, exactly as for the end \<open>end + c\<close>; so the two calls of \<open>reduce\<close> on a
  constructed tree have the same outcome.
\<close>

theorem reduce_negative_end_wraps:
  "- capacity self \<le> e \<and> e < 0
   \<longrightarrow> reduce_with helper self start (Some e)
         = helper (operation self) (value' self) start (e + capacity self - 1) 1 0
             (capacity self - 1) \<and>
       reduce_with helper self start (Some e)
         = reduce_with helper self start (Some (e + capacity self)) \<and>
       reduce self start (Some e) = reduce self start (Some (e + capacity self))"
  by (simp add: reduce_def reduce_with_def)

theorem reduce_negative_end_wraps_witness:
  "reduce_with (\<lambda>oper v s e n ns ne. (s, e, n, ns, ne)) fresh8 0 (Some (- 6))
     = (0, 1, 1, 0, 7) \<and>
   reduce_with (\<lambda>oper v s e n ns ne. (s, e, n, ns, ne)) fresh8 0 (Some 2)
     = (0, 1, 1, 0, 7) \<and>
   reduce fresh8 0 (Some (- 6)) = reduce fresh8 0 (Some 2) \<and>
   reduce fresh8 0 (Some (- 6)) = Some (Inl TracerBoolConversionError)"
proof -
  have cap: "capacity fresh8 = 8" by (simp add: fresh8_def)
  have "reduce fresh8 0 (Some 2) = Some (Inl TracerBoolConversionError)"
    by (rule reduce_in_range_raises) (simp_all add: cap)
  moreover have "reduce_with (\<lambda>oper v s e n ns ne. (s, e, n, ns, ne)) fresh8 0 (Some 2)
      = (0, 1, 1, 0, 7)"
    by (simp add: reduce_with_def cap)
  ultimately show ?thesis
    using reduce_negative_end_wraps [of fresh8 "- 6" "\<lambda>oper v s e n ns ne. (s, e, n, ns, ne)" 0]
    by (simp add: cap)
qed

section \<open>The prefix-sum search\<close>

text \<open>
  C4. Claimed: \<open>findPrefixSumIndex\<close> returns the leaf reached by the root-to-leaf
  descent, and \<open>1\<close> for target \<open>1.5\<close> in the scenario. No call of
  \<open>find_prefixsum_idx\<close> returns an index: an empty or negative target is rejected,
  and for non-negative targets \<open>self.sum()\<close> in the second assertion raises
  \<open>TracerBoolConversionError\<close> in the jitted \<open>_reduce_helper\<close>.
\<close>

theorem find_prefixsum_idx_never_returns:
  "(\<exists>err. find_prefixsum_idx self arg = Some (Inl err))
   \<and> (0 < capacity self \<and> capacity self \<le> 2 ^ 31 \<and> elems arg \<noteq> [] \<and>
      list_all (\<lambda>p. 0 \<le> p) (elems arg)
      \<longrightarrow> find_prefixsum_idx self arg = Some (Inl TracerBoolConversionError))"
  by (simp add: find_prefixsum_idx_raises find_prefixsum_idx_nonneg)

theorem find_prefixsum_idx_never_returns_witness:
  "run_setitems fresh8 [(Scalar 3, Scalar 5), (Array [0, 1, 2], Array [1, 2, 3])]
     = Some (Inl TracerBoolConversionError, fresh8) \<and>
   find_prefixsum_idx fresh8 (PyFloat (3 / 2)) = Some (Inl TracerBoolConversionError) \<and>
   find_prefixsum_idx fresh8 (NpFloat64 [0]) = Some (Inl TracerBoolConversionError)"
proof -
  have cap: "capacity fresh8 = 8" by (simp add: fresh8_def)
  have "run_setitems fresh8 [(Scalar 3, Scalar 5), (Array [0, 1, 2], Array [1, 2, 3])]
     = Some (Inl TracerBoolConversionError, fresh8)"
    by (simp add: setitem_scalar in_int32_def cap)
  then show ?thesis
    using find_prefixsum_idx_never_returns [of fresh8 "PyFloat (3 / 2)"]
      find_prefixsum_idx_never_returns [of fresh8 "NpFloat64 [0]"]
    by (simp add: cap)
qed

text \<open>
  C8. Claimed: \<open>findPrefixSumIndex\<close> fails exactly when the target is outside
  \<open>[0, sum(0, capacity) + epsilon]\<close>. A negative target fails the first assertion; every
  other target given as a Python \<open>float\<close>, inside the range or above it, is rejected
  with \<open>TracerBoolConversionError\<close>, raised by \<open>self.sum()\<close> before the second
  assertion is decided.
\<close>

theorem find_prefixsum_idx_in_range_rejected:
  "0 < capacity self \<and> capacity self \<le> 2 ^ 31
   \<longrightarrow> (0 \<le> p \<longrightarrow> find_prefixsum_idx self (PyFloat p) = Some (Inl TracerBoolConversionError))
     \<and> (p < 0 \<longrightarrow> find_prefixsum_idx self (PyFloat p) = Some (Inl (AssertionError [])))"
proof (intro impI conjI)
  assume a: "0 < capacity self \<and> capacity self \<le> 2 ^ 31" and "0 \<le> p"
  then show "find_prefixsum_idx self (PyFloat p) = Some (Inl TracerBoolConversionError)"
    by (intro find_prefixsum_idx_nonneg) simp_all
next
  assume "p < 0"
  then show "find_prefixsum_idx self (PyFloat p) = Some (Inl (AssertionError []))"
    by (simp add: find_prefixsum_idx_def)
qed

theorem find_prefixsum_idx_in_range_rejected_witness:
  "value' fresh8 ! 1 = 0 \<and> (0::real) \<le> 0 \<and> (0::real) \<le> 0 + 1 / 100000 \<and>
   find_prefixsum_idx fresh8 (PyFloat 0) = Some (Inl TracerBoolConversionError) \<and>
   find_prefixsum_idx fresh8 (PyFloat (- 1)) = Some (Inl (AssertionError []))"
proof -
  have "capacity fresh8 = 8" "value' fresh8 ! 1 = 0" by (simp_all add: fresh8_def)
  then show ?thesis
    using find_prefixsum_idx_in_range_rejected [of fresh8 0]
      find_prefixsum_idx_in_range_rejected [of fresh8 "- 1"]
    by simp
qed

section \<open>Termination\<close>

text \<open>
  C5. Every operation comes back on every input: \<open>set\<close>/\<open>setBatch\<close>, \<open>reduce\<close> and
  \<open>findPrefixSumIndex\<close> return an outcome for all arguments, and so do the three jitted
  helpers, the propagation loop of \<open>_setitem_helper\<close> and the descent loop of
  \<open>_find_prefixsum_idx_helper\<close> included. (\<open>__init__\<close> and \<open>__getitem__\<close> have neither
  loop nor recursion.) The outcome of each is an exception.
\<close>

theorem operations_return:
  "(\<exists>r. setitem self idx val = Some r) \<and>
   (\<exists>r. reduce self start end = Some r) \<and>
   (\<exists>r. find_prefixsum_idx st arg = Some r) \<and>
   (\<exists>r. setitem_helper oper v idxs = Some r) \<and>
   (\<exists>r. setitem_loop oper v idxs = Some r) \<and>
   (\<exists>r. reduce_helper oper v s e n ns ne = Some r) \<and>
   (\<exists>r. find_prefixsum_idx_helper st w ps = Some r)"
proof -
  have "\<exists>r. setitem self idx val = Some r" using setitem_keeps_tree [of self idx val] by auto
  moreover have "\<exists>r. reduce self start end = Some r" using reduce_raises [of self start "end"] by auto
  moreover have "\<exists>r. find_prefixsum_idx st arg = Some r"
    using find_prefixsum_idx_raises [of st arg] by auto
  moreover have "\<exists>r. setitem_loop oper v idxs = Some r"
  proof (cases "length idxs > 1")
    case True
    then have "unique (map (\<lambda>i. i div 2) idxs) = Inl TracerArrayConversionError"
      by (intro unique_raises) simp
    with True show ?thesis by (subst setitem_loop.simps) simp
  next
    case False
    then show ?thesis by (subst setitem_loop.simps) (auto simp add: tracer_bool_def)
  qed
  ultimately show ?thesis
    by (simp add: setitem_helper_outcome reduce_helper_raises find_prefixsum_idx_helper_def
        find_prefixsum_loop_raises)
qed

section \<open>Construction\<close>



end
